theory Spec2Isabelle
  imports Complex_Main "HOL-Library.Multiset"
begin

section \<open>JavaScript values used by the pages\<close>

text \<open>
  A JavaScript \<open>number\<close> is modelled as a real: the values the pages receive come from
  JSON, so they are finite. The comparators subtract two numbers and only the sign of the
  difference is used, which is the same for the reals as for binary64. The one product
  the pages compute, \<open>percentage * 100\<close> of the monthly chart, is rounded by the runtime:
  the multiplication is a parameter of that chart and not the product of the reals.
  A \<open>Record<string, number>\<close> is an association list in the object's own-property order
  (emotion names are not array indices, so that order is the insertion order);
  \<open>Object.entries\<close> returns its pairs in that order.
\<close>

type_synonym number = real

type_synonym 'v js_record = "(string \<times> 'v) list"

definition Object_entries :: "'v js_record \<Rightarrow> (string \<times> 'v) list" where
  "Object_entries obj = obj"

text \<open>
  Truthiness of an optional number, as tested by \<open>if (latest?.heart_rate)\<close>:
  \<open>undefined\<close> and \<open>0\<close> are falsy.
\<close>

fun truthy :: "number option \<Rightarrow> bool" where
  "truthy None = False"
| "truthy (Some v) = (v \<noteq> 0)"

text \<open>
  \<open>Array.prototype.sort(cmp)\<close> is a stable sort (ECMAScript 2019): the result is ordered
  by the comparator and elements that compare equal keep their relative order. For a
  consistent comparator that result is unique; it is computed here by insertion from the
  right, placing an element in front of the first one it does not have to follow.
\<close>

fun js_insert :: "('a \<Rightarrow> 'a \<Rightarrow> number) \<Rightarrow> 'a \<Rightarrow> 'a list \<Rightarrow> 'a list" where
  "js_insert cmp x [] = [x]"
| "js_insert cmp x (y # ys) =
     (if cmp x y \<le> 0 then x # y # ys else y # js_insert cmp x ys)"

definition js_sort :: "('a \<Rightarrow> 'a \<Rightarrow> number) \<Rightarrow> 'a list \<Rightarrow> 'a list" where
  "js_sort cmp xs = foldr (js_insert cmp) xs []"

text \<open>\<open>xs.slice(-n)\<close>: the last \<open>n\<close> elements, all of them when there are fewer.\<close>

definition slice_last :: "nat \<Rightarrow> 'a list \<Rightarrow> 'a list" where
  "slice_last n xs = drop (length xs - n) xs"

text \<open>\<open>xs.slice(0, n)\<close>: the first \<open>n\<close> elements, all of them when there are fewer.\<close>

definition slice_first :: "nat \<Rightarrow> 'a list \<Rightarrow> 'a list" where
  "slice_first n xs = take n xs"


section \<open>api/client.ts: the records the pages consume\<close>

record DiaryEntry =
  de_id :: number
  created_at :: string
  content :: string
  de_emotion :: string
  de_intensity :: number
  sentiment_score :: number

record EmotionLabel =
  el_id :: number
  el_device_id :: "string option"
  el_timestamp :: string
  el_emotion :: string
  el_intensity :: number
  el_note :: "string option"

record WatchData =
  wd_id :: number
  wd_device_id :: "string option"
  wd_timestamp :: string
  heart_rate :: "number option"
  hrv :: "number option"
  spo2 :: "number option"
  stress_level :: "number option"
  steps :: "number option"
  calories :: "number option"
  distance :: "number option"
  active_minutes :: "number option"
  sleep_hours :: "number option"
  sleep_quality :: "number option"
  body_battery :: "number option"
  skin_temperature :: "number option"
  respiratory_rate :: "number option"

record EmotionPrediction =
  ep_emotion :: string
  confidence :: number
  probabilities :: "number js_record"
  ep_timestamp :: string

record DailyStats =
  ds_date :: string
  ds_total_entries :: number
  dominant_emotion :: string
  avg_intensity :: number
  emotion_distribution :: "number js_record"

record WeeklyStats =
  week_start :: string
  week_end :: string
  ws_total_entries :: number
  daily_stats :: "DailyStats list"
  emotion_trend :: "(number list) js_record"

record MonthlyStats =
  month :: number
  year :: number
  ms_total_entries :: number
  weekly_stats :: "WeeklyStats list"
  emotion_patterns :: "number js_record"


section \<open>DiaryPage.tsx: the merged timeline\<close>

text \<open>
  \<open>allEntries\<close> wraps every diary entry and every mood label in an object
  \<open>{type, data, timestamp}\<close>, concatenates diary items and mood items in that order and
  sorts by \<open>new Date(b.timestamp).getTime() - new Date(a.timestamp).getTime()\<close>.
  The parsing of a timestamp to milliseconds, \<open>new Date(s).getTime()\<close>, belongs to the
  JavaScript runtime and is the parameter \<open>getTime\<close>; the timestamps are valid ISO-8601
  instants, so it yields a number.
\<close>

datatype entry_type = diary | mood

datatype entry_data = Diary_data DiaryEntry | Mood_data EmotionLabel

record timeline_item =
  item_type :: entry_type
  item_data :: entry_data
  timestamp :: string

definition diary_item :: "DiaryEntry \<Rightarrow> timeline_item" where
  "diary_item entry =
     \<lparr>item_type = diary, item_data = Diary_data entry, timestamp = created_at entry\<rparr>"

definition mood_item :: "EmotionLabel \<Rightarrow> timeline_item" where
  "mood_item label =
     \<lparr>item_type = mood, item_data = Mood_data label, timestamp = el_timestamp label\<rparr>"

definition by_timestamp_desc ::
  "(string \<Rightarrow> number) \<Rightarrow> timeline_item \<Rightarrow> timeline_item \<Rightarrow> number" where
  "by_timestamp_desc getTime a b = getTime (timestamp b) - getTime (timestamp a)"

text \<open>The spread-and-sort expression on two lists of wrapped items.\<close>

definition merge_items ::
  "(string \<Rightarrow> number) \<Rightarrow> timeline_item list \<Rightarrow> timeline_item list \<Rightarrow> timeline_item list" where
  "merge_items getTime xs ys = js_sort (by_timestamp_desc getTime) (xs @ ys)"

definition allEntries ::
  "(string \<Rightarrow> number) \<Rightarrow> DiaryEntry list \<Rightarrow> EmotionLabel list \<Rightarrow> timeline_item list" where
  "allEntries getTime entries todayLabels =
     merge_items getTime (map diary_item entries) (map mood_item todayLabels)"


section \<open>RealtimePage: the polled state and the heart-rate window\<close>

record hr_point =
  point_time :: string
  point_value :: number

text \<open>The four \<open>useState\<close> slots of the page and their initial values.\<close>

record RealtimePage_state =
  latestData :: "WatchData option"
  prediction :: "EmotionPrediction option"
  hrHistory :: "hr_point list"
  loading :: bool

definition initial_page :: RealtimePage_state where
  "initial_page = \<lparr>latestData = None, prediction = None, hrHistory = [], loading = True\<rparr>"

text \<open>\<open>latest?.heart_rate\<close>, where \<open>latest\<close> is \<open>WatchData | null\<close>.\<close>

definition optional_heart_rate :: "WatchData option \<Rightarrow> number option" where
  "optional_heart_rate latest = (case latest of None \<Rightarrow> None | Some w \<Rightarrow> heart_rate w)"

text \<open>
  The updater handed to \<open>setHrHistory\<close>:
  \<open>prev => { const newHistory = [...prev, point]; return newHistory.slice(-20) }\<close>.
\<close>

definition push_point :: "hr_point \<Rightarrow> hr_point list \<Rightarrow> hr_point list" where
  "push_point p prev = (let newHistory = prev @ [p] in slice_last 20 newHistory)"

text \<open>
  The guarded push of \<open>loadData\<close>; \<open>now\<close> is \<open>format(new Date(), 'HH:mm:ss')\<close> at the
  moment of the push.
\<close>

definition push_sample :: "string \<Rightarrow> WatchData option \<Rightarrow> hr_point list \<Rightarrow> hr_point list" where
  "push_sample now latest prev =
     (if truthy (optional_heart_rate latest)
      then (case optional_heart_rate latest of
              None \<Rightarrow> prev
            | Some hr \<Rightarrow> push_point \<lparr>point_time = now, point_value = hr\<rparr> prev)
      else prev)"

text \<open>A window fed with a sequence of polled samples, oldest first.\<close>

definition push_all :: "(string \<times> WatchData option) list \<Rightarrow> hr_point list \<Rightarrow> hr_point list" where
  "push_all samples h = foldl (\<lambda>prev (now, latest). push_sample now latest prev) h samples"

text \<open>
  The point \<open>{ time: now, value: latest.heart_rate! }\<close> built for a polled sample that
  passes the guard.
\<close>

definition point_of :: "string \<times> WatchData option \<Rightarrow> hr_point" where
  "point_of s =
     \<lparr>point_time = fst s,
      point_value = (case optional_heart_rate (snd s) of None \<Rightarrow> 0 | Some hr \<Rightarrow> hr)\<rparr>"

text \<open>
  \<open>loadData\<close> after \<open>await Promise.all([...])\<close> has resolved with \<open>[latest, pred]\<close>: the
  three setters in the \<open>try\<close> block, then \<open>setLoading(false)\<close> of the \<open>finally\<close> block.
  A setter is modelled as the assignment of its state slot.
\<close>

definition loadData_resolved ::
  "string \<Rightarrow> WatchData option \<Rightarrow> EmotionPrediction \<Rightarrow> RealtimePage_state \<Rightarrow> RealtimePage_state" where
  "loadData_resolved now latest pred s =
     (let s1 = s\<lparr>latestData := latest\<rparr>;
          s2 = s1\<lparr>prediction := Some pred\<rparr>;
          s3 = s2\<lparr>hrHistory := push_sample now latest (hrHistory s2)\<rparr>
      in s3\<lparr>loading := False\<rparr>)"

text \<open>
  \<open>loadData\<close> after \<open>Promise.all\<close> has rejected: the \<open>catch\<close> block logs, the \<open>finally\<close>
  block clears \<open>loading\<close>.
\<close>

definition loadData_rejected :: "RealtimePage_state \<Rightarrow> RealtimePage_state" where
  "loadData_rejected s = s\<lparr>loading := False\<rparr>"

text \<open>
  The page together with what the event loop holds for it: whether the interval registered
  by \<open>setInterval(loadData, 10000)\<close> is still registered, and how many calls of
  \<open>loadData\<close> are suspended at their \<open>await\<close>.
\<close>

record polling =
  page :: RealtimePage_state
  interval_registered :: bool
  in_flight :: nat

datatype event =
    Mount
  | Tick
  | Cleanup
  | Resolve string "WatchData option" EmotionPrediction
  | Reject

text \<open>
  \<open>Mount\<close> is the effect body (\<open>loadData()\<close>, then \<open>setInterval\<close>), \<open>Tick\<close> the timer
  firing, \<open>Cleanup\<close> the function returned by the effect (\<open>clearInterval(interval)\<close>),
  \<open>Resolve\<close> and \<open>Reject\<close> the settling of one suspended call.
\<close>

fun step :: "event \<Rightarrow> polling \<Rightarrow> polling" where
  "step Mount c = c\<lparr>in_flight := Suc (in_flight c), interval_registered := True\<rparr>"
| "step Tick c =
     (if interval_registered c then c\<lparr>in_flight := Suc (in_flight c)\<rparr> else c)"
| "step Cleanup c = c\<lparr>interval_registered := False\<rparr>"
| "step (Resolve now latest pred) c =
     (if 0 < in_flight c
      then c\<lparr>page := loadData_resolved now latest pred (page c), in_flight := in_flight c - 1\<rparr>
      else c)"
| "step Reject c =
     (if 0 < in_flight c
      then c\<lparr>page := loadData_rejected (page c), in_flight := in_flight c - 1\<rparr>
      else c)"

definition run :: "event list \<Rightarrow> polling \<Rightarrow> polling" where
  "run evs c = foldl (\<lambda>c' ev. step ev c') c evs"

definition initial_polling :: polling where
  "initial_polling = \<lparr>page = initial_page, interval_registered = False, in_flight = 0\<rparr>"

text \<open>
  The prediction card: \<open>Object.entries(prediction.probabilities).sort(([, a], [, b]) => b - a)
  .slice(0, 3)\<close>. \<open>rankedPredictions\<close> is that expression with the bound of the slice as
  its argument; the page uses it at 3.
\<close>

definition rankedPredictions :: "nat \<Rightarrow> number js_record \<Rightarrow> (string \<times> number) list" where
  "rankedPredictions k probs =
     slice_first k (js_sort (\<lambda>x y. snd y - snd x) (Object_entries probs))"

definition prob_items :: "EmotionPrediction \<Rightarrow> (string \<times> number) list" where
  "prob_items pred = rankedPredictions 3 (probabilities pred)"


section \<open>StatsPage.tsx: chart rows and cell colours\<close>

definition COLORS :: "string list" where
  "COLORS = [''#007AFF'', ''#34C759'', ''#FF2D55'', ''#AF52DE'', ''#FF9500'', ''#FFCC00'']"

record daily_row =
  dr_emotion :: string
  dr_count :: number

record monthly_row =
  mr_emotion :: string
  percentage :: number

definition prepareDailyChartData :: "DailyStats option \<Rightarrow> daily_row list" where
  "prepareDailyChartData dailyStats =
     (case dailyStats of
        None \<Rightarrow> []
      | Some stats \<Rightarrow>
          map (\<lambda>(emotion, count). \<lparr>dr_emotion = emotion, dr_count = count\<rparr>)
            (Object_entries (emotion_distribution stats)))"

text \<open>
  In \<open>prepareMonthlyChartData\<close> the parameter \<open>mul\<close> is the runtime's \<open>*\<close> on numbers,
  the binary64 product: \<open>mul pct 100\<close> is \<open>percentage * 100\<close>.
\<close>

definition prepareMonthlyChartData ::
  "(number \<Rightarrow> number \<Rightarrow> number) \<Rightarrow> MonthlyStats option \<Rightarrow> monthly_row list" where
  "prepareMonthlyChartData mul monthlyStats =
     (case monthlyStats of
        None \<Rightarrow> []
      | Some stats \<Rightarrow>
          map (\<lambda>(emotion, pct). \<lparr>mr_emotion = emotion, percentage = mul pct 100\<rparr>)
            (Object_entries (emotion_patterns stats)))"

text \<open>\<open>COLORS[index % COLORS.length]\<close>; the index is always within the palette.\<close>

definition cell_fill :: "nat \<Rightarrow> string" where
  "cell_fill index = COLORS ! (index mod length COLORS)"

text \<open>
  The \<open>Cell\<close> elements of the two charts,
  \<open>rows.map((entry, index) => <Cell fill={COLORS[index % COLORS.length]} />)\<close>, as the list
  of their fills.
\<close>

definition daily_cells :: "DailyStats option \<Rightarrow> string list" where
  "daily_cells dailyStats =
     map (\<lambda>(index, entry). cell_fill index) (enumerate 0 (prepareDailyChartData dailyStats))"

definition monthly_cells ::
  "(number \<Rightarrow> number \<Rightarrow> number) \<Rightarrow> MonthlyStats option \<Rightarrow> string list" where
  "monthly_cells mul monthlyStats =
     map (\<lambda>(index, entry). cell_fill index)
       (enumerate 0 (prepareMonthlyChartData mul monthlyStats))"

text \<open>The fill of the cell drawn for an emotion, when the chart has a row for it.\<close>

definition daily_color_of :: "DailyStats option \<Rightarrow> string \<Rightarrow> string option" where
  "daily_color_of dailyStats e =
     map_of (zip (map dr_emotion (prepareDailyChartData dailyStats)) (daily_cells dailyStats)) e"

definition monthly_color_of ::
  "(number \<Rightarrow> number \<Rightarrow> number) \<Rightarrow> MonthlyStats option \<Rightarrow> string \<Rightarrow> string option" where
  "monthly_color_of mul monthlyStats e =
     map_of (zip (map mr_emotion (prepareMonthlyChartData mul monthlyStats))
                 (monthly_cells mul monthlyStats)) e"


section \<open>Sample data\<close>

text \<open>Concrete inputs on which the results below are evaluated.\<close>

definition sample_getTime :: "string \<Rightarrow> number" where
  "sample_getTime s =
     (if s = ''2024-01-01T10:00:00Z'' then 1704103200000
      else if s = ''2024-01-01T12:30:00Z'' then 1704112200000
      else 0)"

definition sample_entry :: "string \<Rightarrow> DiaryEntry" where
  "sample_entry ts =
     \<lparr>de_id = 1, created_at = ts, content = ''a walk'', de_emotion = ''joy'',
      de_intensity = 0.5, sentiment_score = 0.5\<rparr>"

definition sample_label :: "string \<Rightarrow> EmotionLabel" where
  "sample_label ts =
     \<lparr>el_id = 1, el_device_id = None, el_timestamp = ts, el_emotion = ''calm'',
      el_intensity = 0.5, el_note = None\<rparr>"

definition sample_watch :: "number option \<Rightarrow> WatchData" where
  "sample_watch hr =
     \<lparr>wd_id = 7, wd_device_id = None, wd_timestamp = ''2024-01-01T10:00:00Z'',
      heart_rate = hr, hrv = None, spo2 = None, stress_level = None, steps = None,
      calories = None, distance = None, active_minutes = None, sleep_hours = None,
      sleep_quality = None, body_battery = None, skin_temperature = None,
      respiratory_rate = None\<rparr>"

definition sample_prediction :: EmotionPrediction where
  "sample_prediction =
     \<lparr>ep_emotion = ''a'', confidence = 0.5,
      probabilities = [(''a'', 0.5), (''b'', 0.5), (''c'', 0.1)],
      ep_timestamp = ''2024-01-01T10:00:00Z''\<rparr>"

definition sample_daily :: "number js_record \<Rightarrow> DailyStats" where
  "sample_daily distribution =
     \<lparr>ds_date = ''2024-01-01'', ds_total_entries = 3, dominant_emotion = ''a'',
      avg_intensity = 0.5, emotion_distribution = distribution\<rparr>"

definition sample_monthly :: "number js_record \<Rightarrow> MonthlyStats" where
  "sample_monthly patterns =
     \<lparr>month = 1, year = 2024, ms_total_entries = 4, weekly_stats = [],
      emotion_patterns = patterns\<rparr>"


text \<open>
  The runtime's product at the two fractions of the sample aggregate: \<open>0.25 * 100\<close> and
  \<open>0.75 * 100\<close> are 25 and 75 in binary64, without rounding.
\<close>

definition sample_mul :: "number \<Rightarrow> number \<Rightarrow> number" where
  "sample_mul x y =
     (if x = 0.25 \<and> y = 100 then 25
      else if x = 0.75 \<and> y = 100 then 75
      else 0)"

text \<open>One diary entry and two mood labels, the later label made at the entry's instant.\<close>

definition sample_feed :: "timeline_item list" where
  "sample_feed =
     allEntries sample_getTime [sample_entry ''2024-01-01T10:00:00Z'']
       [sample_label ''2024-01-01T12:30:00Z'', sample_label ''2024-01-01T10:00:00Z'']"

text \<open>Twenty-one polls, ten seconds apart, each with a heart rate.\<close>

definition sample_run :: "(string \<times> WatchData option) list" where
  "sample_run =
     [(''10:00:00'', Some (sample_watch (Some 60))),
      (''10:00:10'', Some (sample_watch (Some 61))),
      (''10:00:20'', Some (sample_watch (Some 62))),
      (''10:00:30'', Some (sample_watch (Some 63))),
      (''10:00:40'', Some (sample_watch (Some 64))),
      (''10:00:50'', Some (sample_watch (Some 65))),
      (''10:01:00'', Some (sample_watch (Some 66))),
      (''10:01:10'', Some (sample_watch (Some 67))),
      (''10:01:20'', Some (sample_watch (Some 68))),
      (''10:01:30'', Some (sample_watch (Some 69))),
      (''10:01:40'', Some (sample_watch (Some 70))),
      (''10:01:50'', Some (sample_watch (Some 71))),
      (''10:02:00'', Some (sample_watch (Some 72))),
      (''10:02:10'', Some (sample_watch (Some 73))),
      (''10:02:20'', Some (sample_watch (Some 74))),
      (''10:02:30'', Some (sample_watch (Some 75))),
      (''10:02:40'', Some (sample_watch (Some 76))),
      (''10:02:50'', Some (sample_watch (Some 77))),
      (''10:03:00'', Some (sample_watch (Some 78))),
      (''10:03:10'', Some (sample_watch (Some 79))),
      (''10:03:20'', Some (sample_watch (Some 80)))]"


section \<open>The stable sort against the library's\<close>

text \<open>
  With a comparator \<open>key b - key a\<close> the sort is the library's stable insertion sort on
  the negated key, from which order, stability and content follow.
\<close>

lemma js_insert_desc:
  "js_insert (\<lambda>a b. key b - key a) x ys = insort_key (\<lambda>a. - key a) x ys"
  by (induction ys) simp_all

lemma js_sort_desc:
  "js_sort (\<lambda>a b. key b - key a) xs = sort_key (\<lambda>a. - key a) xs"
  by (induction xs) (simp_all add: js_sort_def js_insert_desc)

lemma js_sort_desc_sorted:
  "sorted_wrt (\<lambda>a b. key b \<le> key a) (js_sort (\<lambda>a b. key b - key a) xs)"
proof -
  have "sorted (map (\<lambda>a. - key a) (sort_key (\<lambda>a. - key a) xs))"
    by (rule sorted_sort_key)
  then show ?thesis
    by (simp add: js_sort_desc sorted_map)
qed

lemma js_sort_desc_stable:
  "filter (\<lambda>a. key a = k) (js_sort (\<lambda>a b. key b - key a) xs) = filter (\<lambda>a. key a = k) xs"
proof -
  have "filter (\<lambda>a. - key a = - k) (sort_key (\<lambda>a. - key a) xs)
      = filter (\<lambda>a. - key a = - k) xs"
    by (rule sort_key_stable)
  then show ?thesis
    by (simp add: js_sort_desc)
qed

lemma js_sort_desc_mset: "mset (js_sort (\<lambda>a b. key b - key a) xs) = mset xs"
  by (simp add: js_sort_desc)

lemma merge_items_sort_key:
  "merge_items getTime xs ys = sort_key (\<lambda>a. - getTime (timestamp a)) (xs @ ys)"
proof -
  have "by_timestamp_desc getTime
      = (\<lambda>a b. getTime (timestamp b) - getTime (timestamp a))"
    by (intro ext) (simp add: by_timestamp_desc_def)
  then show ?thesis
    by (simp add: merge_items_def js_sort_desc)
qed


section \<open>Properties of the merged timeline\<close>

lemma sorted_wrt_filter_iff:
  "sorted_wrt R (filter P xs) = sorted_wrt (\<lambda>a b. P a \<and> P b \<longrightarrow> R a b) xs"
  by (induction xs) auto

lemma merge_items_stable:
  "filter (\<lambda>a. getTime (timestamp a) = k) (merge_items getTime xs ys)
   = filter (\<lambda>a. getTime (timestamp a) = k) xs @ filter (\<lambda>a. getTime (timestamp a) = k) ys"
proof -
  have "filter (\<lambda>a. - getTime (timestamp a) = - k)
          (sort_key (\<lambda>a. - getTime (timestamp a)) (xs @ ys))
      = filter (\<lambda>a. - getTime (timestamp a) = - k) (xs @ ys)"
    by (rule sort_key_stable)
  then show ?thesis
    by (simp add: merge_items_sort_key)
qed

lemma diary_then_mood:
  "sorted_wrt (\<lambda>a b. \<not> (item_type a = mood \<and> item_type b = diary))
     (map diary_item es @ map mood_item ls)"
  by (simp add: sorted_wrt_append sorted_wrt_map diary_item_def mood_item_def)

lemma sample_timeline:
  "sample_feed
   = [mood_item (sample_label ''2024-01-01T12:30:00Z''),
      diary_item (sample_entry ''2024-01-01T10:00:00Z''),
      mood_item (sample_label ''2024-01-01T10:00:00Z'')]"
  by (simp add: sample_feed_def allEntries_def merge_items_def js_sort_def
      by_timestamp_desc_def diary_item_def mood_item_def sample_getTime_def
      sample_entry_def sample_label_def)

text \<open>
  C7. For every list of diary entries and every list of mood labels the merged timeline
  holds exactly the wrapped entries and labels, each as often as given, in descending
  order of the parsed timestamps, the items of any one instant in the order of the
  concatenation. The timeline of two empty lists is the empty list, and the sample entry
  of 10:00 with the labels of 12:30 and 10:00 gives label, entry, label.
\<close>

theorem allEntries_sorted_desc:
  "sorted_wrt (\<lambda>a b. getTime (timestamp b) \<le> getTime (timestamp a))
      (allEntries getTime entries todayLabels)
   \<and> mset (allEntries getTime entries todayLabels)
      = mset (map diary_item entries @ map mood_item todayLabels)
   \<and> filter (\<lambda>a. getTime (timestamp a) = k) (allEntries getTime entries todayLabels)
      = filter (\<lambda>a. getTime (timestamp a) = k)
          (map diary_item entries @ map mood_item todayLabels)
   \<and> allEntries getTime [] [] = []
   \<and> allEntries sample_getTime [sample_entry ''2024-01-01T10:00:00Z'']
        [sample_label ''2024-01-01T12:30:00Z'', sample_label ''2024-01-01T10:00:00Z'']
      = [mood_item (sample_label ''2024-01-01T12:30:00Z''),
         diary_item (sample_entry ''2024-01-01T10:00:00Z''),
         mood_item (sample_label ''2024-01-01T10:00:00Z'')]"
proof (intro conjI)
  have "sorted (map (\<lambda>a. - getTime (timestamp a))
      (sort_key (\<lambda>a. - getTime (timestamp a))
         (map diary_item entries @ map mood_item todayLabels)))"
    by (rule sorted_sort_key)
  then show "sorted_wrt (\<lambda>a b. getTime (timestamp b) \<le> getTime (timestamp a))
      (allEntries getTime entries todayLabels)"
    by (simp add: allEntries_def merge_items_sort_key sorted_map)
next
  show "mset (allEntries getTime entries todayLabels)
      = mset (map diary_item entries @ map mood_item todayLabels)"
    by (simp add: allEntries_def merge_items_sort_key)
next
  show "filter (\<lambda>a. getTime (timestamp a) = k) (allEntries getTime entries todayLabels)
      = filter (\<lambda>a. getTime (timestamp a) = k)
          (map diary_item entries @ map mood_item todayLabels)"
    unfolding allEntries_def merge_items_stable by simp
next
  show "allEntries getTime [] [] = []"
    by (simp add: allEntries_def merge_items_def js_sort_def)
next
  show "allEntries sample_getTime [sample_entry ''2024-01-01T10:00:00Z'']
        [sample_label ''2024-01-01T12:30:00Z'', sample_label ''2024-01-01T10:00:00Z'']
      = [mood_item (sample_label ''2024-01-01T12:30:00Z''),
         diary_item (sample_entry ''2024-01-01T10:00:00Z''),
         mood_item (sample_label ''2024-01-01T10:00:00Z'')]"
    using sample_timeline unfolding sample_feed_def .
qed

text \<open>
  C2. Whenever a diary item and a mood item of the merged timeline have the same parsed
  timestamp, the diary item stands at the smaller position: the sort is stable and the
  diary items are in front in the list that is sorted.
\<close>

theorem allEntries_diary_before_mood:
  assumes i: "i < length (allEntries getTime entries todayLabels)"
      and j: "j < length (allEntries getTime entries todayLabels)"
      and di: "item_type (allEntries getTime entries todayLabels ! i) = diary"
      and mj: "item_type (allEntries getTime entries todayLabels ! j) = mood"
      and eq: "getTime (timestamp (allEntries getTime entries todayLabels ! i))
             = getTime (timestamp (allEntries getTime entries todayLabels ! j))"
  shows "i < j"
proof (rule ccontr)
  let ?out = "allEntries getTime entries todayLabels"
  let ?R = "\<lambda>a b. \<not> (item_type a = mood \<and> item_type b = diary)"
  define k where "k = getTime (timestamp (?out ! j))"
  define P where "P = (\<lambda>a::timeline_item. getTime (timestamp a) = k)"
  assume "\<not> i < j"
  moreover have "i \<noteq> j" using di mj by auto
  ultimately have ji: "j < i" by simp
  have "filter P ?out = filter P (map diary_item entries @ map mood_item todayLabels)"
    unfolding P_def allEntries_def merge_items_stable by simp
  moreover have "sorted_wrt ?R (filter P (map diary_item entries @ map mood_item todayLabels))"
    by (rule sorted_wrt_filter) (rule diary_then_mood)
  ultimately have "sorted_wrt ?R (filter P ?out)"
    by simp
  then have "sorted_wrt (\<lambda>a b. P a \<and> P b \<longrightarrow> ?R a b) ?out"
    by (simp only: sorted_wrt_filter_iff)
  from sorted_wrt_nth_less [OF this ji i]
  have "P (?out ! j) \<and> P (?out ! i) \<longrightarrow> ?R (?out ! j) (?out ! i)" .
  moreover have "P (?out ! j)" "P (?out ! i)"
    using eq by (simp_all add: P_def k_def)
  ultimately show False using di mj by simp
qed

theorem allEntries_diary_before_mood_witness:
  "1 < length sample_feed \<and> 2 < length sample_feed
   \<and> item_type (sample_feed ! 1) = diary \<and> item_type (sample_feed ! 2) = mood
   \<and> sample_getTime (timestamp (sample_feed ! 1)) = sample_getTime (timestamp (sample_feed ! 2))
   \<and> (1::nat) < 2"
proof -
  have h1: "1 < length sample_feed" and h2: "2 < length sample_feed"
    unfolding sample_timeline by simp_all
  have h3: "item_type (sample_feed ! 1) = diary"
    unfolding sample_timeline by (simp add: diary_item_def)
  have h4: "item_type (sample_feed ! 2) = mood"
    unfolding sample_timeline by (simp add: mood_item_def)
  have h5: "sample_getTime (timestamp (sample_feed ! 1))
      = sample_getTime (timestamp (sample_feed ! 2))"
    unfolding sample_timeline
    by (simp add: diary_item_def mood_item_def sample_entry_def sample_label_def)
  from allEntries_diary_before_mood [of 1 sample_getTime _ _ 2]
    h1 h2 h3 h4 h5
  show ?thesis
    unfolding sample_feed_def by blast
qed

lemma sort_key_append_commute:
  fixes f :: "'a \<Rightarrow> real"
  assumes disj: "\<And>a b. a \<in> set A \<Longrightarrow> b \<in> set B \<Longrightarrow> f a \<noteq> f b"
  shows "sort_key f (A @ B) = sort_key f (B @ A)"
proof (rule properties_for_sort_key)
  show "mset (sort_key f (B @ A)) = mset (A @ B)"
    by simp
next
  fix k
  have same: "filter (\<lambda>x. f k = f x) (B @ A) = filter (\<lambda>x. f k = f x) (A @ B)"
  proof (cases "\<exists>a\<in>set A. f k = f a")
    case True
    then have "\<forall>b\<in>set B. f k \<noteq> f b"
      using disj by metis
    then have "filter (\<lambda>x. f k = f x) B = []"
      by (simp add: filter_empty_conv)
    then show ?thesis
      by simp
  next
    case False
    then have "filter (\<lambda>x. f k = f x) A = []"
      by (simp add: filter_empty_conv)
    then show ?thesis
      by simp
  qed
  have "filter (\<lambda>x. f x = f k) (sort_key f (B @ A)) = filter (\<lambda>x. f x = f k) (B @ A)"
    by (rule sort_key_stable)
  moreover have "(\<lambda>x. f x = f k) = (\<lambda>x. f k = f x)"
    by (intro ext) (rule eq_commute)
  ultimately have "filter (\<lambda>x. f k = f x) (sort_key f (B @ A)) = filter (\<lambda>x. f k = f x) (B @ A)"
    by simp
  with same show "filter (\<lambda>x. f k = f x) (sort_key f (B @ A)) = filter (\<lambda>x. f k = f x) (A @ B)"
    by simp
next
  show "sorted (map f (sort_key f (B @ A)))"
    by (rule sorted_sort_key)
qed

text \<open>
  C8. When no item of \<open>A\<close> has the same parsed timestamp as an item of \<open>B\<close>, sorting
  \<open>[...A, ...B]\<close> and sorting \<open>[...B, ...A]\<close> give the same sequence. Equal timestamps
  inside \<open>A\<close> or inside \<open>B\<close> are allowed: the stable sort keeps their order on both sides.
\<close>

theorem merge_items_commute:
  assumes "\<forall>a\<in>set A. \<forall>b\<in>set B. getTime (timestamp a) \<noteq> getTime (timestamp b)"
  shows "merge_items getTime A B = merge_items getTime B A"
proof -
  have "sort_key (\<lambda>a. - getTime (timestamp a)) (A @ B)
      = sort_key (\<lambda>a. - getTime (timestamp a)) (B @ A)"
    by (rule sort_key_append_commute) (use assms in simp)
  then show ?thesis
    by (simp only: merge_items_sort_key)
qed

theorem merge_items_commute_witness:
  "sample_getTime (timestamp (diary_item (sample_entry ''2024-01-01T10:00:00Z'')))
     \<noteq> sample_getTime (timestamp (mood_item (sample_label ''2024-01-01T12:30:00Z'')))
   \<and> merge_items sample_getTime [diary_item (sample_entry ''2024-01-01T10:00:00Z'')]
        [mood_item (sample_label ''2024-01-01T12:30:00Z'')]
     = merge_items sample_getTime [mood_item (sample_label ''2024-01-01T12:30:00Z'')]
        [diary_item (sample_entry ''2024-01-01T10:00:00Z'')]"
proof -
  have h: "sample_getTime (timestamp (diary_item (sample_entry ''2024-01-01T10:00:00Z'')))
     \<noteq> sample_getTime (timestamp (mood_item (sample_label ''2024-01-01T12:30:00Z'')))"
    by (simp add: diary_item_def mood_item_def sample_entry_def sample_label_def
        sample_getTime_def)
  then have "\<forall>a\<in>set [diary_item (sample_entry ''2024-01-01T10:00:00Z'')].
      \<forall>b\<in>set [mood_item (sample_label ''2024-01-01T12:30:00Z'')].
        sample_getTime (timestamp a) \<noteq> sample_getTime (timestamp b)"
    by simp
  from merge_items_commute [OF this] h show ?thesis
    by (intro conjI)
qed


section \<open>Properties of the heart-rate window\<close>

lemma length_push_point: "length (push_point p prev) \<le> 20"
  by (simp add: push_point_def slice_last_def)

lemma length_push_sample:
  "length prev \<le> 20 \<Longrightarrow> length (push_sample now latest prev) \<le> 20"
  by (simp add: push_sample_def length_push_point split: option.splits)

lemma length_push_all:
  "length h \<le> 20 \<Longrightarrow> length (push_all samples h) \<le> 20"
  unfolding push_all_def
  by (induction samples arbitrary: h) (auto simp: length_push_sample)

lemma push_point_slice_last:
  "push_point p (slice_last 20 xs) = slice_last 20 (xs @ [p])"
proof -
  have "length xs - (length xs - 20 + 19) + (length xs - 20) = length xs - 19"
    by arith
  then show ?thesis
    by (simp add: push_point_def slice_last_def)
qed

lemma push_sample_truthy:
  "truthy (optional_heart_rate (snd s)) \<Longrightarrow>
   push_sample (fst s) (snd s) prev = push_point (point_of s) prev"
  by (auto simp: push_sample_def point_of_def split: option.splits)

lemma push_all_truthy:
  "\<forall>s\<in>set samples. truthy (optional_heart_rate (snd s)) \<Longrightarrow>
   push_all samples (slice_last 20 xs) = slice_last 20 (xs @ map point_of samples)"
proof (induction samples arbitrary: xs)
  case Nil
  then show ?case by (simp add: push_all_def)
next
  case (Cons s samples)
  have "push_all (s # samples) (slice_last 20 xs)
      = push_all samples (push_sample (fst s) (snd s) (slice_last 20 xs))"
    by (simp add: push_all_def case_prod_beta)
  also have "\<dots> = push_all samples (slice_last 20 (xs @ [point_of s]))"
    using Cons.prems by (simp add: push_sample_truthy push_point_slice_last)
  also have "\<dots> = slice_last 20 ((xs @ [point_of s]) @ map point_of samples)"
    using Cons.prems by (intro Cons.IH) simp
  finally show ?case by simp
qed

lemma run_invariant:
  assumes "P c" and "\<And>ev c'. P c' \<Longrightarrow> P (step ev c')"
  shows "P (run evs c)"
  using assms(1) unfolding run_def
  by (induction evs arbitrary: c) (simp_all add: assms(2))

lemma hrHistory_step:
  "hrHistory (page (step ev c)) = hrHistory (page c)
   \<or> (\<exists>now latest. hrHistory (page (step ev c)) = push_sample now latest (hrHistory (page c)))"
  by (cases ev) (auto simp: loadData_resolved_def loadData_rejected_def)

lemma length_hrHistory_step:
  "length (hrHistory (page c)) \<le> 20 \<Longrightarrow> length (hrHistory (page (step ev c))) \<le> 20"
  using hrHistory_step [of ev c] by (auto simp: length_push_sample)

lemma length_hrHistory_run:
  "length (hrHistory (page (run evs initial_polling))) \<le> 20"
  by (rule run_invariant) (simp_all add: initial_polling_def initial_page_def length_hrHistory_step)

text \<open>
  C4. A window that starts empty never holds more than 20 points, whatever is polled.
  After 21 polls whose heart rate passes the guard of \<open>loadData\<close> (present and not 0, see
  C10) the window holds the points of all polls but the first, so its first element is
  the point of the second poll. The \<open>hrHistory\<close> of the page itself holds at most 20
  points after any sequence of mounts, ticks, cleanups and settled fetches.
\<close>

theorem window_bounded_fifo:
  "length (push_all samples []) \<le> 20
   \<and> length (hrHistory (page (run evs initial_polling))) \<le> 20
   \<and> (length samples = 21 \<and> (\<forall>s\<in>set samples. truthy (optional_heart_rate (snd s)))
        \<longrightarrow> push_all samples [] = tl (map point_of samples)
          \<and> hd (push_all samples []) = point_of (samples ! 1))"
proof (intro conjI impI)
  show "length (push_all samples []) \<le> 20"
    by (rule length_push_all) simp
next
  show "length (hrHistory (page (run evs initial_polling))) \<le> 20"
    by (rule length_hrHistory_run)
next
  assume a: "length samples = 21 \<and> (\<forall>s\<in>set samples. truthy (optional_heart_rate (snd s)))"
  then have "push_all samples (slice_last 20 []) = slice_last 20 ([] @ map point_of samples)"
    by (intro push_all_truthy) simp
  then have eq: "push_all samples [] = drop 1 (map point_of samples)"
    using a by (simp add: slice_last_def)
  then show "push_all samples [] = tl (map point_of samples)"
    by (simp add: drop_Suc)
  show "hd (push_all samples []) = point_of (samples ! 1)"
    using a by (simp add: eq hd_drop_conv_nth)
qed

theorem window_bounded_fifo_witness:
  "length sample_run = 21
   \<and> list_all (\<lambda>s. truthy (optional_heart_rate (snd s))) sample_run
   \<and> length (push_all sample_run []) \<le> 20
   \<and> push_all sample_run [] = tl (map point_of sample_run)
   \<and> hd (push_all sample_run []) = \<lparr>point_time = ''10:00:10'', point_value = 61\<rparr>"
proof -
  have h1: "length sample_run = 21"
    by (simp add: sample_run_def)
  have h2: "\<forall>s\<in>set sample_run. truthy (optional_heart_rate (snd s))"
    by (simp add: sample_run_def optional_heart_rate_def sample_watch_def)
  have p: "point_of (sample_run ! 1) = \<lparr>point_time = ''10:00:10'', point_value = 61\<rparr>"
    by (simp add: sample_run_def point_of_def optional_heart_rate_def sample_watch_def)
  from window_bounded_fifo [where samples = sample_run and evs = "[]"] h1 h2
  have r: "length (push_all sample_run []) \<le> 20
      \<and> push_all sample_run [] = tl (map point_of sample_run)
      \<and> hd (push_all sample_run []) = point_of (sample_run ! 1)"
    by blast
  then have "hd (push_all sample_run []) = point_of (sample_run ! 1)"
    by blast
  from this p
  have "hd (push_all sample_run []) = \<lparr>point_time = ''10:00:10'', point_value = 61\<rparr>"
    by (rule trans)
  with r h1 h2 show ?thesis
    unfolding list_all_iff by blast
qed

text \<open>
  C9. When the polled sample has no heart rate (the response is \<open>null\<close> or its
  \<open>heart_rate\<close> is undefined) the push returns the window as it was, and so the
  \<open>hrHistory\<close> of the page is the same after \<open>loadData\<close> as before.
\<close>

theorem push_absent_unchanged:
  "optional_heart_rate latest = None \<Longrightarrow>
     push_sample now latest prev = prev
     \<and> hrHistory (loadData_resolved now latest pred s) = hrHistory s"
  by (simp add: push_sample_def loadData_resolved_def)

theorem push_absent_unchanged_witness:
  "optional_heart_rate (Some (sample_watch None)) = None
   \<and> push_sample ''10:00:10'' (Some (sample_watch None))
        [\<lparr>point_time = ''10:00:00'', point_value = 60\<rparr>]
      = [\<lparr>point_time = ''10:00:00'', point_value = 60\<rparr>]
   \<and> hrHistory (loadData_resolved ''10:00:10'' (Some (sample_watch None)) sample_prediction
        initial_page) = hrHistory initial_page"
proof -
  have h: "optional_heart_rate (Some (sample_watch None)) = None"
    by (simp add: optional_heart_rate_def sample_watch_def)
  from push_absent_unchanged [OF h] h show ?thesis
    by simp
qed

lemma push_sample_nonzero:
  "\<forall>p\<in>set prev. point_value p \<noteq> 0 \<Longrightarrow>
   \<forall>p\<in>set (push_sample now latest prev). point_value p \<noteq> 0"
  by (auto simp: push_sample_def push_point_def slice_last_def
      split: option.splits dest: in_set_dropD)

lemma push_all_nonzero:
  "\<forall>p\<in>set h. point_value p \<noteq> 0 \<Longrightarrow>
   \<forall>p\<in>set (push_all samples h). point_value p \<noteq> 0"
  unfolding push_all_def
proof (induction samples arbitrary: h)
  case Nil
  then show ?case by simp
next
  case (Cons s samples)
  have "\<forall>p\<in>set (push_sample (fst s) (snd s) h). point_value p \<noteq> 0"
    using Cons.prems by (rule push_sample_nonzero)
  from Cons.IH [OF this] show ?case
    by (simp add: case_prod_beta)
qed

lemma nonzero_hrHistory_step:
  "\<forall>p\<in>set (hrHistory (page c)). point_value p \<noteq> 0 \<Longrightarrow>
   \<forall>p\<in>set (hrHistory (page (step ev c))). point_value p \<noteq> 0"
  using hrHistory_step [of ev c] push_sample_nonzero [of "hrHistory (page c)"] by metis

lemma nonzero_hrHistory_run:
  "\<forall>p\<in>set (hrHistory (page (run evs initial_polling))). point_value p \<noteq> 0"
  by (rule run_invariant [where P = "\<lambda>c. \<forall>p\<in>set (hrHistory (page c)). point_value p \<noteq> 0"])
     (simp_all add: initial_polling_def initial_page_def nonzero_hrHistory_step)

text \<open>
  C10. A sample whose heart rate is present and equal to 0 fails the truthiness guard, so
  the push returns the window as it was; and every point of a window that started empty
  has a value different from 0, as has every point of the page's \<open>hrHistory\<close> after any
  sequence of events.
\<close>

theorem push_zero_dropped:
  "(optional_heart_rate latest = Some 0 \<longrightarrow> push_sample now latest prev = prev)
   \<and> (\<forall>p\<in>set (push_all samples []). point_value p \<noteq> 0)
   \<and> (\<forall>p\<in>set (hrHistory (page (run evs initial_polling))). point_value p \<noteq> 0)"
proof (intro conjI)
  show "optional_heart_rate latest = Some 0 \<longrightarrow> push_sample now latest prev = prev"
    by (simp add: push_sample_def)
  show "\<forall>p\<in>set (push_all samples []). point_value p \<noteq> 0"
    by (rule push_all_nonzero) simp
  show "\<forall>p\<in>set (hrHistory (page (run evs initial_polling))). point_value p \<noteq> 0"
    by (rule nonzero_hrHistory_run)
qed

theorem push_zero_dropped_witness:
  "optional_heart_rate (Some (sample_watch (Some 0))) = Some 0
   \<and> push_sample ''10:00:10'' (Some (sample_watch (Some 0)))
        [\<lparr>point_time = ''10:00:00'', point_value = 60\<rparr>]
      = [\<lparr>point_time = ''10:00:00'', point_value = 60\<rparr>]
   \<and> push_all [(''10:00:00'', Some (sample_watch (Some 60))),
                (''10:00:10'', Some (sample_watch (Some 0)))] []
      = [\<lparr>point_time = ''10:00:00'', point_value = 60\<rparr>]
   \<and> list_all (\<lambda>p. point_value p \<noteq> 0)
        (push_all [(''10:00:00'', Some (sample_watch (Some 60))),
                   (''10:00:10'', Some (sample_watch (Some 0)))] [])"
proof -
  have h: "optional_heart_rate (Some (sample_watch (Some 0))) = Some 0"
    by (simp add: optional_heart_rate_def sample_watch_def)
  have e: "push_all [(''10:00:00'', Some (sample_watch (Some 60))),
                (''10:00:10'', Some (sample_watch (Some 0)))] []
      = [\<lparr>point_time = ''10:00:00'', point_value = 60\<rparr>]"
    by (simp add: push_all_def push_sample_def push_point_def slice_last_def
        optional_heart_rate_def sample_watch_def)
  from push_zero_dropped [of "Some (sample_watch (Some 0))" "''10:00:10''"
      "[\<lparr>point_time = ''10:00:00'', point_value = 60\<rparr>]"
      "[(''10:00:00'', Some (sample_watch (Some 60))),
        (''10:00:10'', Some (sample_watch (Some 0)))]" "[]"] h e
  show ?thesis
    by (simp add: list_all_iff)
qed


section \<open>Stopping the polling of the realtime page\<close>

text \<open>
  The cleanup of the effect only clears the interval. \<open>loadData\<close> keeps no flag and no
  generation tag that it could test after its \<open>await\<close>, so a call that was suspended when
  the cleanup ran continues with the three setters once its fetch resolves.

  C1 (as stated) fails on the run mount, cleanup, resolve: before the resolve the interval
  is cleared, one call is in flight and the page holds no data; after it \<open>latestData\<close>,
  \<open>prediction\<close> and \<open>hrHistory\<close> all hold the late response.
\<close>

theorem stop_then_resolve_counterexample:
  "\<not> interval_registered (run [Mount, Cleanup] initial_polling)
   \<and> in_flight (run [Mount, Cleanup] initial_polling) = 1
   \<and> latestData (page (run [Mount, Cleanup] initial_polling)) = None
   \<and> latestData (page (run [Mount, Cleanup,
          Resolve ''10:00:05'' (Some (sample_watch (Some 72))) sample_prediction] initial_polling))
      = Some (sample_watch (Some 72))
   \<and> prediction (page (run [Mount, Cleanup] initial_polling)) = None
   \<and> prediction (page (run [Mount, Cleanup,
          Resolve ''10:00:05'' (Some (sample_watch (Some 72))) sample_prediction] initial_polling))
      = Some sample_prediction
   \<and> hrHistory (page (run [Mount, Cleanup] initial_polling)) = []
   \<and> hrHistory (page (run [Mount, Cleanup,
          Resolve ''10:00:05'' (Some (sample_watch (Some 72))) sample_prediction] initial_polling))
      = [\<lparr>point_time = ''10:00:05'', point_value = 72\<rparr>]"
  by (simp add: run_def initial_polling_def initial_page_def loadData_resolved_def
      push_sample_def push_point_def slice_last_def optional_heart_rate_def sample_watch_def)

lemma run_ticks_stopped:
  "\<not> interval_registered c \<Longrightarrow> run (replicate n Tick) c = c"
  by (induction n) (simp_all add: run_def)

text \<open>
  C1 (amended). After the cleanup no timer period starts a refresh any more: any number of
  ticks leaves the controller as the cleanup left it. A fetch that was in flight when the
  cleanup ran is not discarded: when it resolves, \<open>latestData\<close> and \<open>prediction\<close> are set
  from the response and \<open>hrHistory\<close> receives the guarded push, and the page is the same as
  if the cleanup had not run.
\<close>

theorem stop_keeps_late_response:
  "run (replicate n Tick) (step Cleanup c) = step Cleanup c
   \<and> (0 < in_flight c \<longrightarrow>
        latestData (page (step (Resolve now latest pred) (step Cleanup c))) = latest
      \<and> prediction (page (step (Resolve now latest pred) (step Cleanup c))) = Some pred
      \<and> hrHistory (page (step (Resolve now latest pred) (step Cleanup c)))
          = push_sample now latest (hrHistory (page c))
      \<and> page (step (Resolve now latest pred) (step Cleanup c))
          = page (step (Resolve now latest pred) c))"
proof
  show "run (replicate n Tick) (step Cleanup c) = step Cleanup c"
    by (rule run_ticks_stopped) simp
  show "0 < in_flight c \<longrightarrow>
        latestData (page (step (Resolve now latest pred) (step Cleanup c))) = latest
      \<and> prediction (page (step (Resolve now latest pred) (step Cleanup c))) = Some pred
      \<and> hrHistory (page (step (Resolve now latest pred) (step Cleanup c)))
          = push_sample now latest (hrHistory (page c))
      \<and> page (step (Resolve now latest pred) (step Cleanup c))
          = page (step (Resolve now latest pred) c)"
    by (simp add: loadData_resolved_def)
qed

theorem stop_keeps_late_response_witness:
  "0 < in_flight (step Mount initial_polling)
   \<and> run (replicate 3 Tick) (step Cleanup (step Mount initial_polling))
      = step Cleanup (step Mount initial_polling)
   \<and> latestData (page (step (Resolve ''10:00:05'' (Some (sample_watch (Some 72)))
        sample_prediction) (step Cleanup (step Mount initial_polling))))
      = Some (sample_watch (Some 72))
   \<and> prediction (page (step (Resolve ''10:00:05'' (Some (sample_watch (Some 72)))
        sample_prediction) (step Cleanup (step Mount initial_polling))))
      = Some sample_prediction
   \<and> hrHistory (page (step (Resolve ''10:00:05'' (Some (sample_watch (Some 72)))
        sample_prediction) (step Cleanup (step Mount initial_polling))))
      = [\<lparr>point_time = ''10:00:05'', point_value = 72\<rparr>]"
proof -
  have h: "0 < in_flight (step Mount initial_polling)"
    by simp
  have p: "push_sample ''10:00:05'' (Some (sample_watch (Some 72)))
        (hrHistory (page (step Mount initial_polling)))
      = [\<lparr>point_time = ''10:00:05'', point_value = 72\<rparr>]"
    by (simp add: initial_polling_def initial_page_def push_sample_def push_point_def
        slice_last_def optional_heart_rate_def sample_watch_def)
  from stop_keeps_late_response [of 3 "step Mount initial_polling" "''10:00:05''"
      "Some (sample_watch (Some 72))" sample_prediction] h
  have "run (replicate 3 Tick) (step Cleanup (step Mount initial_polling))
      = step Cleanup (step Mount initial_polling)
   \<and> latestData (page (step (Resolve ''10:00:05'' (Some (sample_watch (Some 72)))
        sample_prediction) (step Cleanup (step Mount initial_polling))))
      = Some (sample_watch (Some 72))
   \<and> prediction (page (step (Resolve ''10:00:05'' (Some (sample_watch (Some 72)))
        sample_prediction) (step Cleanup (step Mount initial_polling))))
      = Some sample_prediction
   \<and> hrHistory (page (step (Resolve ''10:00:05'' (Some (sample_watch (Some 72)))
        sample_prediction) (step Cleanup (step Mount initial_polling))))
      = push_sample ''10:00:05'' (Some (sample_watch (Some 72)))
          (hrHistory (page (step Mount initial_polling)))"
    by blast
  with h p show ?thesis
    by (simp only:)
qed


section \<open>Chart rows and their colours\<close>

text \<open>
  C3 (as stated) fails: the fill of a cell is taken from the palette at the row's index,
  and the same emotion stands at different indices in different distributions. With the
  distribution \<open>{a: 1, b: 2}\<close> the emotion \<open>a\<close> is drawn in the first colour, with
  \<open>{b: 2, a: 1}\<close> in the second; the monthly chart does the same with its patterns.
\<close>

theorem colour_by_identity_counterexample:
  "daily_color_of (Some (sample_daily [(''a'', 1), (''b'', 2)])) ''a'' = Some ''#007AFF''
   \<and> daily_color_of (Some (sample_daily [(''b'', 2), (''a'', 1)])) ''a'' = Some ''#34C759''
   \<and> monthly_color_of sample_mul (Some (sample_monthly [(''x'', 0.25), (''y'', 0.75)])) ''x''
      = Some ''#007AFF''
   \<and> monthly_color_of sample_mul (Some (sample_monthly [(''y'', 0.75), (''x'', 0.25)])) ''x''
      = Some ''#34C759''"
  by (simp add: daily_color_of_def daily_cells_def prepareDailyChartData_def Object_entries_def
      monthly_color_of_def monthly_cells_def prepareMonthlyChartData_def sample_monthly_def
      sample_daily_def cell_fill_def COLORS_def enumerate_eq_zip)

lemma cells_nth:
  "i < length rows \<Longrightarrow>
   map (\<lambda>(index, entry). cell_fill index) (enumerate 0 rows) ! i = COLORS ! (i mod 6)"
  by (simp add: nth_enumerate_eq cell_fill_def COLORS_def)

lemma daily_cells_nth:
  "i < length (prepareDailyChartData d) \<Longrightarrow> daily_cells d ! i = COLORS ! (i mod 6)"
  unfolding daily_cells_def by (rule cells_nth)

lemma monthly_cells_nth:
  "i < length (prepareMonthlyChartData mul m) \<Longrightarrow> monthly_cells mul m ! i = COLORS ! (i mod 6)"
  unfolding monthly_cells_def by (rule cells_nth)

text \<open>
  C3 (amended). The colour of a cell is a function of the position of its row alone: row
  \<open>i\<close> of the daily chart and of the monthly chart is filled with \<open>COLORS[i mod 6]\<close>,
  whatever the emotions are. So an emotion is drawn in the same colour in two aggregates
  when it stands at the same position, or at positions that agree modulo 6, in both.
\<close>

theorem cell_colour_by_position:
  "(i < length (prepareDailyChartData d1) \<and> j < length (prepareDailyChartData d2)
      \<and> i mod 6 = j mod 6
      \<longrightarrow> daily_cells d1 ! i = COLORS ! (i mod 6) \<and> daily_cells d1 ! i = daily_cells d2 ! j)
   \<and> (i < length (prepareMonthlyChartData mul m1) \<and> j < length (prepareMonthlyChartData mul m2)
      \<and> i mod 6 = j mod 6
      \<longrightarrow> monthly_cells mul m1 ! i = COLORS ! (i mod 6)
        \<and> monthly_cells mul m1 ! i = monthly_cells mul m2 ! j)"
proof (intro conjI impI)
  assume a: "i < length (prepareDailyChartData d1) \<and> j < length (prepareDailyChartData d2)
      \<and> i mod 6 = j mod 6"
  then have "daily_cells d1 ! i = COLORS ! (i mod 6)" and "daily_cells d2 ! j = COLORS ! (j mod 6)"
    by (simp_all only: daily_cells_nth)
  with a show "daily_cells d1 ! i = COLORS ! (i mod 6)" and "daily_cells d1 ! i = daily_cells d2 ! j"
    by simp_all
next
  assume a: "i < length (prepareMonthlyChartData mul m1)
      \<and> j < length (prepareMonthlyChartData mul m2) \<and> i mod 6 = j mod 6"
  then have "monthly_cells mul m1 ! i = COLORS ! (i mod 6)"
    and "monthly_cells mul m2 ! j = COLORS ! (j mod 6)"
    by (simp_all only: monthly_cells_nth)
  with a show "monthly_cells mul m1 ! i = COLORS ! (i mod 6)"
    and "monthly_cells mul m1 ! i = monthly_cells mul m2 ! j"
    by simp_all
qed

theorem cell_colour_by_position_witness:
  "1 < length (prepareDailyChartData (Some (sample_daily [(''a'', 1), (''b'', 2)])))
   \<and> 1 < length (prepareDailyChartData (Some (sample_daily [(''b'', 2), (''a'', 1)])))
   \<and> daily_cells (Some (sample_daily [(''a'', 1), (''b'', 2)])) ! 1 = COLORS ! (1 mod 6)
   \<and> daily_cells (Some (sample_daily [(''a'', 1), (''b'', 2)])) ! 1
      = daily_cells (Some (sample_daily [(''b'', 2), (''a'', 1)])) ! 1
   \<and> 1 < length (prepareMonthlyChartData sample_mul
          (Some (sample_monthly [(''x'', 0.25), (''y'', 0.75)])))
   \<and> 1 < length (prepareMonthlyChartData sample_mul
          (Some (sample_monthly [(''y'', 0.75), (''x'', 0.25)])))
   \<and> monthly_cells sample_mul (Some (sample_monthly [(''x'', 0.25), (''y'', 0.75)])) ! 1
      = monthly_cells sample_mul (Some (sample_monthly [(''y'', 0.75), (''x'', 0.25)])) ! 1"
proof -
  have d1: "1 < length (prepareDailyChartData (Some (sample_daily [(''a'', 1), (''b'', 2)])))"
    and d2: "1 < length (prepareDailyChartData (Some (sample_daily [(''b'', 2), (''a'', 1)])))"
    by (simp_all add: prepareDailyChartData_def Object_entries_def sample_daily_def)
  have m1: "1 < length (prepareMonthlyChartData sample_mul
        (Some (sample_monthly [(''x'', 0.25), (''y'', 0.75)])))"
    and m2: "1 < length (prepareMonthlyChartData sample_mul
        (Some (sample_monthly [(''y'', 0.75), (''x'', 0.25)])))"
    by (simp_all add: prepareMonthlyChartData_def Object_entries_def sample_monthly_def)
  from cell_colour_by_position [of 1 "Some (sample_daily [(''a'', 1), (''b'', 2)])" 1
      "Some (sample_daily [(''b'', 2), (''a'', 1)])" sample_mul
      "Some (sample_monthly [(''x'', 0.25), (''y'', 0.75)])"
      "Some (sample_monthly [(''y'', 0.75), (''x'', 0.25)])"] d1 d2 m1 m2
  show ?thesis
    by blast
qed




section \<open>Ranking the predicted probabilities\<close>

lemma ranked_sort_key:
  "rankedPredictions k ps = take k (sort_key (\<lambda>a. - snd a) ps)"
  by (simp add: rankedPredictions_def slice_first_def Object_entries_def js_sort_desc)

text \<open>
  C5. The ranking is the first \<open>k\<close> entries of the full ranking, and the full ranking
  holds the entries of the distribution, each as often as given, in descending order of
  probability, with the entries of any one probability in their original order. The
  page's expression fixes the bound at 3; with the bound 2 the distribution
  \<open>{a: 0.5, b: 0.5, c: 0.1}\<close> is ranked \<open>[a, b]\<close>, and the page itself shows \<open>[a, b, c]\<close>.
\<close>

theorem rankedPredictions_top_k:
  "rankedPredictions k ps = take k (rankedPredictions (length ps) ps)
   \<and> mset (rankedPredictions (length ps) ps) = mset (Object_entries ps)
   \<and> sorted_wrt (\<lambda>a b. snd b \<le> snd a) (rankedPredictions (length ps) ps)
   \<and> sorted_wrt (\<lambda>a b. snd b \<le> snd a) (rankedPredictions k ps)
   \<and> filter (\<lambda>a. snd a = p) (rankedPredictions (length ps) ps)
       = filter (\<lambda>a. snd a = p) (Object_entries ps)
   \<and> rankedPredictions 2 [(''a'', 0.5), (''b'', 0.5), (''c'', 0.1)]
       = [(''a'', 0.5), (''b'', 0.5)]
   \<and> prob_items sample_prediction = [(''a'', 0.5), (''b'', 0.5), (''c'', 0.1)]"
proof (intro conjI)
  have full: "rankedPredictions (length ps) ps = js_sort (\<lambda>x y. snd y - snd x) ps"
    by (simp add: ranked_sort_key js_sort_desc)
  show "rankedPredictions k ps = take k (rankedPredictions (length ps) ps)"
    by (simp add: ranked_sort_key)
  show "mset (rankedPredictions (length ps) ps) = mset (Object_entries ps)"
    by (simp add: full js_sort_desc_mset Object_entries_def)
  show s: "sorted_wrt (\<lambda>a b. snd b \<le> snd a) (rankedPredictions (length ps) ps)"
    unfolding full by (rule js_sort_desc_sorted)
  have "sorted_wrt (\<lambda>a b. snd b \<le> snd a) (take k (rankedPredictions (length ps) ps))"
    using s by (rule sorted_wrt_take)
  then show "sorted_wrt (\<lambda>a b. snd b \<le> snd a) (rankedPredictions k ps)"
    by (simp add: ranked_sort_key)
  show "filter (\<lambda>a. snd a = p) (rankedPredictions (length ps) ps)
       = filter (\<lambda>a. snd a = p) (Object_entries ps)"
    unfolding full Object_entries_def by (rule js_sort_desc_stable)
  show "rankedPredictions 2 [(''a'', 0.5), (''b'', 0.5), (''c'', 0.1)]
       = [(''a'', 0.5), (''b'', 0.5)]"
    by (simp add: rankedPredictions_def slice_first_def Object_entries_def js_sort_def)
  show "prob_items sample_prediction = [(''a'', 0.5), (''b'', 0.5), (''c'', 0.1)]"
    by (simp add: prob_items_def sample_prediction_def rankedPredictions_def slice_first_def
        Object_entries_def js_sort_def)
qed

end
